theory Spec2Isabelle
  imports Complex_Main "HOL-Library.Log_Nat"
begin

section \<open>Values of the host language\<close>

text \<open>
  The server runs on Node, whose numbers are IEEE doubles. A seed is an integer (a
  double with an integer value); the arithmetic of the seeded generator rounds as the
  doubles do (\<open>round_double\<close>), which changes nothing while
  \<open>\<bar>seed\<bar> \<le> 968411918577\<close> and from the second state on. Seeds that are not
  integers, integers that are no doubles (they cannot reach the code) and seeds so
  large that their product with 9301 is no finite double are outside the model. Parameter values are \<open>rat\<close>: the wrapper only passes them on and
  compares them with zero. Strings are byte lists.

  Every exception of the source is a value of \<open>error\<close>. The source raises plain
  \<open>Error\<close> objects with a message; the host raises \<open>TypeError\<close> where the code reads
  through \<open>undefined\<close>. The wording of the host's messages, the stack text of an error,
  the number formatting, the base64 decoder, the file system's refusals and the
  built-in random generator belong to the host and are parameters (\<open>runtime\<close>).
\<close>

datatype fault =
    DestructureUndefined
  | EntriesOfUndefined
  | PathNotString
  | ToFixedOfUndefined
  | BufferFromUndefined

datatype error = Error string | TypeError fault

record runtime =
  ambient :: "nat \<Rightarrow> rat"
  type_error_message :: "fault \<Rightarrow> string"
  error_stack :: "error \<Rightarrow> string"
  mkdir_error :: "string \<Rightarrow> error option"
  write_error :: "string \<Rightarrow> error option"
  base64_decode :: "string \<Rightarrow> nat list"
  number_to_string :: "rat \<Rightarrow> string"
  toFixed2 :: "rat \<Rightarrow> string"

definition message :: "runtime \<Rightarrow> error \<Rightarrow> string" where
  "message rt e = (case e of Error m \<Rightarrow> m | TypeError f \<Rightarrow> type_error_message rt f)"

definition nl :: string where
  "nl = [CHR 0x0A]"

text \<open>The decimal text of an integer, as the host prints it in a template.\<close>

definition digit :: "nat \<Rightarrow> char" where
  "digit d =
     (if d = 0 then CHR ''0'' else if d = 1 then CHR ''1'' else if d = 2 then CHR ''2''
      else if d = 3 then CHR ''3'' else if d = 4 then CHR ''4'' else if d = 5 then CHR ''5''
      else if d = 6 then CHR ''6'' else if d = 7 then CHR ''7'' else if d = 8 then CHR ''8''
      else CHR ''9'')"

fun show_nat :: "nat \<Rightarrow> string" where
  "show_nat n = (if n < 10 then [digit n] else show_nat (n div 10) @ [digit (n mod 10)])"

declare show_nat.simps [simp del]

definition show_int :: "int \<Rightarrow> string" where
  "show_int i = (if i < 0 then ''-'' @ show_nat (nat (- i)) else show_nat (nat i))"

text \<open>\<open>s.split(c)\<close> of the host: the pieces of \<open>s\<close> between the occurrences of \<open>c\<close>.\<close>

fun split_str :: "char \<Rightarrow> string \<Rightarrow> string list" where
  "split_str c [] = [[]]"
| "split_str c (x # xs) =
     (if x = c then [] # split_str c xs
      else (case split_str c xs of [] \<Rightarrow> [[x]] | p # ps \<Rightarrow> (x # p) # ps))"

section \<open>The random source\<close>

text \<open>
  \<open>Math.random\<close> is a global of the process. It is either the host's generator
  (\<open>Builtin n\<close>: called \<open>n\<close> times so far, its values given by \<open>ambient\<close>) or the
  closure that \<open>randomizeSound\<close> assigns, which owns the variable \<open>seedValue\<close>
  (\<open>Seeded seedValue\<close>). \<open>%\<close> is the remainder of the host: it truncates, so its
  sign is the sign of the dividend, and it is exact. The product and the sum of
  \<open>seedValue * 9301 + 49297\<close> are each rounded to the nearest double, ties to the
  even significand: an integer below \<open>2 ^ 53\<close> in magnitude is a double, a larger
  one is rounded to a multiple of the power of two that leaves 53 bits. The value
  the closure returns is the double nearest to \<open>seedValue / 233280\<close>; the model
  returns the quotient itself.
\<close>

datatype random_source = Builtin nat | Seeded int

definition round_double :: "int \<Rightarrow> int" where
  "round_double x =
     (let m = \<bar>x\<bar>; u = 2 ^ nat (bitlen m - 53); q = m div u; r = m mod u
      in sgn x * u * (if 2 * r < u then q else if u < 2 * r then q + 1
                      else if even q then q else q + 1))"

definition js_rem :: "int \<Rightarrow> int \<Rightarrow> int" where
  "js_rem a n = sgn a * (\<bar>a\<bar> mod \<bar>n\<bar>)"

definition lcg_next :: "int \<Rightarrow> int" where
  "lcg_next seedValue =
     js_rem (round_double (round_double (seedValue * 9301) + 49297)) 233280"

fun Math_random :: "runtime \<Rightarrow> random_source \<Rightarrow> rat \<times> random_source" where
  "Math_random rt (Builtin n) = (ambient rt n, Builtin (Suc n))"
| "Math_random rt (Seeded seedValue) =
     (rat_of_int (lcg_next seedValue) / 233280, Seeded (lcg_next seedValue))"

text \<open>
  Code of the synthesis engine that calls \<open>Math.random()\<close> is a program over that one
  call: it either returns, or draws a value and goes on with it. It cannot look at
  which generator is installed.
\<close>

datatype 'a rprog = Ret 'a | Draw "rat \<Rightarrow> 'a rprog"

primrec run :: "runtime \<Rightarrow> 'a rprog \<Rightarrow> random_source \<Rightarrow> 'a \<times> random_source" where
  "run rt (Ret a) = (\<lambda>r. (a, r))"
| "run rt (Draw k) = (\<lambda>r. case Math_random rt r of (x, r') \<Rightarrow> run rt (k x) r')"

text \<open>The values that \<open>n\<close> successive calls of \<open>Math.random()\<close> return.\<close>

fun calls :: "runtime \<Rightarrow> random_source \<Rightarrow> nat \<Rightarrow> rat list" where
  "calls rt r 0 = []"
| "calls rt r (Suc n) = (case Math_random rt r of (x, r') \<Rightarrow> x # calls rt r' n)"

section \<open>The synthesis engine\<close>

text \<open>
  The class \<open>Bfxr\<close> is third-party code that the wrapper loads at run time; it is not
  part of the repository. Its methods are parameters of every definition below. They
  are typed as the wrapper uses them and as the specification describes the engine
  interface: the parameter methods act on \<open>this.bfxr.params\<close>; the presets, the
  randomisation and the rendering may call \<open>Math.random()\<close>; \<open>set_param\<close> and
  \<open>generate_sound\<close> may raise, and one that raises leaves the field it would have
  written as it was; a successful \<open>generate_sound\<close> stores the sound it rendered in
  \<open>this.bfxr.sound\<close>. An object of parameters is a map from names to numbers, and
  its entries are listed in the order \<open>Object.entries\<close> gives them.
\<close>

type_synonym params = "string \<rightharpoonup> rat"

record 's engine =
  reset_params :: "params \<Rightarrow> params"
  generate_pickup_coin :: "params \<Rightarrow> params rprog"
  generate_laser_shoot :: "params \<Rightarrow> params rprog"
  generate_explosion :: "params \<Rightarrow> params rprog"
  generate_powerup :: "params \<Rightarrow> params rprog"
  generate_hit_hurt :: "params \<Rightarrow> params rprog"
  generate_jump :: "params \<Rightarrow> params rprog"
  generate_blip_select :: "params \<Rightarrow> params rprog"
  set_param :: "string \<Rightarrow> rat \<Rightarrow> params \<Rightarrow> error + params"
  randomize_params :: "params \<Rightarrow> params rprog"
  generate_sound :: "params \<Rightarrow> (error + 's) rprog"
  getDataUri :: "'s \<Rightarrow> string"

section \<open>The state of the process\<close>

text \<open>
  \<open>params\<close> and \<open>sound\<close> are the fields \<open>this.bfxr.params\<close> and \<open>this.bfxr.sound\<close>
  of the one wrapper the server creates (\<open>sound\<close> is \<open>None\<close> until a sound is
  rendered), \<open>random\<close> is the global \<open>Math.random\<close>, \<open>files\<close> the contents of the
  files written (directories are not modelled).
\<close>

record 's world =
  params :: params
  sound :: "'s option"
  random :: random_source
  files :: "string \<rightharpoonup> nat list"

type_synonym ('a, 's) action = "'s world \<Rightarrow> (error + 'a) \<times> 's world"

definition return :: "'a \<Rightarrow> ('a, 's) action" where
  "return a w = (Inr a, w)"

definition throw :: "error \<Rightarrow> ('a, 's) action" where
  "throw e w = (Inl e, w)"

definition bind :: "('a, 's) action \<Rightarrow> ('a \<Rightarrow> ('b, 's) action) \<Rightarrow> ('b, 's) action" where
  "bind m f w = (case m w of (Inl e, w') \<Rightarrow> (Inl e, w') | (Inr a, w') \<Rightarrow> f a w')"

text \<open>The calls into the engine, as steps on the state.\<close>

definition call_reset_params :: "'s engine \<Rightarrow> (unit, 's) action" where
  "call_reset_params eng w = (Inr (), w\<lparr>params := reset_params eng (params w)\<rparr>)"

definition call_random :: "runtime \<Rightarrow> (params \<Rightarrow> params rprog) \<Rightarrow> (unit, 's) action" where
  "call_random rt method w =
     (case run rt (method (params w)) (random w) of
        (p, r) \<Rightarrow> (Inr (), w\<lparr>params := p, random := r\<rparr>))"

definition call_set_param :: "'s engine \<Rightarrow> string \<Rightarrow> rat \<Rightarrow> (unit, 's) action" where
  "call_set_param eng key val w =
     (case set_param eng key val (params w) of
        Inl e \<Rightarrow> (Inl e, w)
      | Inr p \<Rightarrow> (Inr (), w\<lparr>params := p\<rparr>))"

definition call_generate_sound :: "runtime \<Rightarrow> 's engine \<Rightarrow> (unit, 's) action" where
  "call_generate_sound rt eng w =
     (case run rt (generate_sound eng (params w)) (random w) of
        (Inl e, r) \<Rightarrow> (Inl e, w\<lparr>random := r\<rparr>)
      | (Inr s, r) \<Rightarrow> (Inr (), w\<lparr>sound := Some s, random := r\<rparr>))"

definition this_bfxr_sound :: "('s option, 's) action" where
  "this_bfxr_sound w = (Inr (sound w), w)"

section \<open>BfxrWrapper\<close>

text \<open>\<open>for (const [key, value] of Object.entries(o)) this.bfxr.set_param(key, value)\<close>\<close>

fun set_entries :: "'s engine \<Rightarrow> (string \<times> rat) list \<Rightarrow> (unit, 's) action" where
  "set_entries eng [] = return ()"
| "set_entries eng ((key, val) # rest) =
     bind (call_set_param eng key val) (\<lambda>_. set_entries eng rest)"

definition shown :: "string option \<Rightarrow> string" where
  "shown v = (case v of None \<Rightarrow> ''undefined'' | Some s \<Rightarrow> s)"

text \<open>The \<open>switch (type)\<close> of \<open>generateSoundEffect\<close>; its default case raises.\<close>

definition preset_switch :: "runtime \<Rightarrow> 's engine \<Rightarrow> string option \<Rightarrow> (unit, 's) action" where
  "preset_switch rt eng type =
     (if type = Some ''pickup'' then call_random rt (generate_pickup_coin eng)
      else if type = Some ''laser'' then call_random rt (generate_laser_shoot eng)
      else if type = Some ''explosion'' then call_random rt (generate_explosion eng)
      else if type = Some ''powerup'' then call_random rt (generate_powerup eng)
      else if type = Some ''hit'' then call_random rt (generate_hit_hurt eng)
      else if type = Some ''jump'' then call_random rt (generate_jump eng)
      else if type = Some ''blip'' then call_random rt (generate_blip_select eng)
      else throw (Error (''Unknown sound type: '' @ shown type)))"

definition generateSoundEffect ::
  "runtime \<Rightarrow> 's engine \<Rightarrow> string option \<Rightarrow> (string \<times> rat) list option \<Rightarrow> ('s option, 's) action"
where
  "generateSoundEffect rt eng type customParams =
     bind (call_reset_params eng) (\<lambda>_.
     bind (preset_switch rt eng type) (\<lambda>_.
     bind (set_entries eng (case customParams of None \<Rightarrow> [] | Some c \<Rightarrow> c)) (\<lambda>_.
     bind (call_generate_sound rt eng) (\<lambda>_.
     this_bfxr_sound))))"

definition createCustomSound ::
  "runtime \<Rightarrow> 's engine \<Rightarrow> (string \<times> rat) list option \<Rightarrow> ('s option, 's) action"
where
  "createCustomSound rt eng parameters =
     bind (call_reset_params eng) (\<lambda>_.
     bind (case parameters of
             None \<Rightarrow> throw (TypeError EntriesOfUndefined)
           | Some ps \<Rightarrow> set_entries eng ps) (\<lambda>_.
     bind (call_generate_sound rt eng) (\<lambda>_.
     this_bfxr_sound)))"

definition install_seed :: "int option \<Rightarrow> (unit, 's) action" where
  "install_seed seed w =
     (case seed of
        None \<Rightarrow> (Inr (), w)
      | Some seedValue \<Rightarrow> (Inr (), w\<lparr>random := Seeded seedValue\<rparr>))"

definition randomizeSound :: "runtime \<Rightarrow> 's engine \<Rightarrow> int option \<Rightarrow> ('s option, 's) action" where
  "randomizeSound rt eng seed =
     bind (install_seed seed) (\<lambda>_.
     bind (call_random rt (randomize_params eng)) (\<lambda>_.
     bind (call_generate_sound rt eng) (\<lambda>_.
     this_bfxr_sound)))"

text \<open>
  \<open>getWavData\<close>: the data URI of the current sound and the text after its first
  comma (\<open>undefined\<close> when it has no comma). The field \<open>buffer\<close> of the result, which
  no caller reads, is left out.
\<close>

record wav_data =
  dataUri :: string
  base64 :: "string option"

definition getWavData :: "'s engine \<Rightarrow> (wav_data, 's) action" where
  "getWavData eng w =
     (case sound w of
        None \<Rightarrow> (Inl (Error ''No sound generated yet''), w)
      | Some s \<Rightarrow>
          (Inr \<lparr>dataUri = getDataUri eng s,
                base64 = (case split_str (CHR '','') (getDataUri eng s) of
                            _ # b # _ \<Rightarrow> Some b
                          | _ \<Rightarrow> None)\<rparr>, w))"

definition getCurrentParameters :: "'s world \<Rightarrow> params" where
  "getCurrentParameters w = params w"

record preset =
  name :: string
  description :: string

definition getPresets :: "preset list" where
  "getPresets =
     [\<lparr>name = ''pickup'', description = ''Pickup/Coin sounds''\<rparr>,
      \<lparr>name = ''laser'', description = ''Laser/Shoot sounds''\<rparr>,
      \<lparr>name = ''explosion'', description = ''Explosion sounds''\<rparr>,
      \<lparr>name = ''powerup'', description = ''Powerup sounds''\<rparr>,
      \<lparr>name = ''hit'', description = ''Hit/Hurt sounds''\<rparr>,
      \<lparr>name = ''jump'', description = ''Jump sounds''\<rparr>,
      \<lparr>name = ''blip'', description = ''UI/Select sounds''\<rparr>]"

section \<open>The server\<close>

record save_result =
  filePath :: string
  save_message :: string

text \<open>
  \<open>saveWavFile\<close>: the data of the current sound, the directory of the path (the host
  raises on a path that is not a string), the decoded bytes, the write.
\<close>

definition host_step :: "error option \<Rightarrow> (unit, 's) action" where
  "host_step refusal = (case refusal of None \<Rightarrow> return () | Some e \<Rightarrow> throw e)"

definition write_file :: "string \<Rightarrow> nat list \<Rightarrow> (unit, 's) action" where
  "write_file path buffer w = (Inr (), w\<lparr>files := (files w)(path \<mapsto> buffer)\<rparr>)"

definition saveWavFile ::
  "runtime \<Rightarrow> 's engine \<Rightarrow> string option \<Rightarrow> string \<Rightarrow> (save_result, 's) action"
where
  "saveWavFile rt eng filepath type =
     bind (getWavData eng) (\<lambda>wavData.
     case filepath of
       None \<Rightarrow> throw (TypeError PathNotString)
     | Some path \<Rightarrow>
         bind (host_step (mkdir_error rt path)) (\<lambda>_.
         case base64 wavData of
           None \<Rightarrow> throw (TypeError BufferFromUndefined)
         | Some payload \<Rightarrow>
             bind (host_step (write_error rt path)) (\<lambda>_.
             bind (write_file path (base64_decode rt payload)) (\<lambda>_.
             return \<lparr>filePath = path,
                     save_message =
                       ''Generated '' @ type @ '' sound!'' @ nl @
                       ''Saved to: '' @ path @ nl @
                       ''File size: '' @ show_nat (length (base64_decode rt payload)) @
                       '' bytes''\<rparr>))))"

text \<open>
  The argument bag of a request; a field the client left out is \<open>None\<close>, and the bag
  itself may be missing. A response is its one text item and the flag \<open>isError\<close>
  (\<open>False\<close> when the response has no such field).
\<close>

record args =
  type :: "string option"
  customParams :: "(string \<times> rat) list option"
  parameters :: "(string \<times> rat) list option"
  seed :: "int option"
  filepath :: "string option"

record response =
  content_text :: string
  isError :: bool

definition reply :: "string \<Rightarrow> (response, 's) action" where
  "reply t = return \<lparr>content_text = t, isError = False\<rparr>"

definition destructure :: "args option \<Rightarrow> (args \<Rightarrow> ('a, 's) action) \<Rightarrow> ('a, 's) action" where
  "destructure a f = (case a of None \<Rightarrow> throw (TypeError DestructureUndefined) | Some v \<Rightarrow> f v)"

text \<open>The suffix of the type text in \<open>randomize_sound\<close>: \<open>seed ? ` (seed: ${seed})` : ''\<close>.\<close>

definition seed_suffix :: "int option \<Rightarrow> string" where
  "seed_suffix s =
     (case s of
        None \<Rightarrow> []
      | Some v \<Rightarrow> if v \<noteq> 0 then '' (seed: '' @ show_int v @ '')'' else [])"

text \<open>The text of \<open>get_parameters\<close>; \<open>toFixed\<close> of a field that is not there raises.\<close>

definition fixed :: "runtime \<Rightarrow> rat option \<Rightarrow> error + string" where
  "fixed rt v = (case v of None \<Rightarrow> Inl (TypeError ToFixedOfUndefined) | Some x \<Rightarrow> Inr (toFixed2 rt x))"

definition number_text :: "runtime \<Rightarrow> rat option \<Rightarrow> string" where
  "number_text rt v = (case v of None \<Rightarrow> ''undefined'' | Some x \<Rightarrow> number_to_string rt x)"

definition vibrato_text :: "runtime \<Rightarrow> params \<Rightarrow> string" where
  "vibrato_text rt p =
     (case p ''vibratoDepth'' of
        None \<Rightarrow> ''none''
      | Some d \<Rightarrow>
          if d > 0 then number_to_string rt d @ '' @ '' @ number_text rt (p ''vibratoSpeed'')
          else ''none'')"

definition slide_text :: "runtime \<Rightarrow> params \<Rightarrow> string" where
  "slide_text rt p =
     (case p ''frequency_slide'' of
        None \<Rightarrow> ''undefined''
      | Some x \<Rightarrow> if x \<noteq> 0 then number_to_string rt x else ''none'')"

definition parameters_text :: "runtime \<Rightarrow> params \<Rightarrow> error + string" where
  "parameters_text rt p =
     (case fixed rt (p ''frequency_start'') of
        Inl e \<Rightarrow> Inl e
      | Inr f \<Rightarrow>
         (case fixed rt (p ''attackTime'') of
            Inl e \<Rightarrow> Inl e
          | Inr a \<Rightarrow>
             (case fixed rt (p ''sustainTime'') of
                Inl e \<Rightarrow> Inl e
              | Inr s \<Rightarrow>
                 (case fixed rt (p ''decayTime'') of
                    Inl e \<Rightarrow> Inl e
                  | Inr d \<Rightarrow>
                      Inr (''Current sound parameters:'' @ nl @
                           ''Wave: '' @ number_text rt (p ''waveType'') @
                           '' | Freq: '' @ f @ nl @
                           ''Envelope: A'' @ a @ '' S'' @ s @ '' D'' @ d @ nl @
                           ''Vibrato: '' @ vibrato_text rt p @
                           '' | Slide: '' @ slide_text rt p)))))"

text \<open>The prefix of a line of \<open>list_presets\<close>, in the bytes the source file has.\<close>

definition bullet :: string where
  "bullet = [CHR 0xC3, CHR 0xA2, CHR 0xE2, CHR 0x82, CHR 0xAC, CHR 0xC2, CHR 0xA2]"

fun join :: "string \<Rightarrow> string list \<Rightarrow> string" where
  "join sep [] = []"
| "join sep [x] = x"
| "join sep (x # y # ys) = x @ sep @ join sep (y # ys)"

definition presets_text :: string where
  "presets_text =
     ''Available presets:'' @ nl @
     join nl (map (\<lambda>p. bullet @ '' '' @ name p @ '': '' @ description p) getPresets)"

text \<open>The body of the \<open>try\<close> of the request handler: the \<open>switch\<close> over the tool name.\<close>

definition tool_call ::
  "runtime \<Rightarrow> 's engine \<Rightarrow> string \<Rightarrow> args option \<Rightarrow> (response, 's) action"
where
  "tool_call rt eng tool a =
     (if tool = ''generate_sound_effect'' then
        destructure a (\<lambda>v.
        bind (generateSoundEffect rt eng (type v)
                (Some (case customParams v of None \<Rightarrow> [] | Some c \<Rightarrow> c))) (\<lambda>_.
        bind (saveWavFile rt eng (filepath v) (shown (type v))) (\<lambda>result.
        reply (save_message result))))
      else if tool = ''create_custom_sound'' then
        destructure a (\<lambda>v.
        bind (createCustomSound rt eng (parameters v)) (\<lambda>_.
        bind (saveWavFile rt eng (filepath v) ''custom'') (\<lambda>result.
        reply (save_message result))))
      else if tool = ''randomize_sound'' then
        destructure a (\<lambda>v.
        bind (randomizeSound rt eng (seed v)) (\<lambda>_.
        bind (saveWavFile rt eng (filepath v) (''random'' @ seed_suffix (seed v))) (\<lambda>result.
        reply (save_message result))))
      else if tool = ''export_wav'' then
        destructure a (\<lambda>v.
        bind this_bfxr_sound (\<lambda>current.
        case current of
          None \<Rightarrow> reply ''No sound generated yet. Please generate a sound first.''
        | Some _ \<Rightarrow>
            bind (saveWavFile rt eng (filepath v) ''exported'') (\<lambda>result.
            reply (save_message result))))
      else if tool = ''get_parameters'' then
        (\<lambda>w. case parameters_text rt (getCurrentParameters w) of
               Inl e \<Rightarrow> throw e w
             | Inr t \<Rightarrow> reply t w)
      else if tool = ''list_presets'' then
        reply presets_text
      else throw (Error (''Unknown tool: '' @ tool)))"

text \<open>
  The handler: the \<open>try\<close> and its \<open>catch\<close>, which answers every error (the line it
  logs to the error stream is not part of the state).
\<close>

definition error_response :: "runtime \<Rightarrow> error \<Rightarrow> response" where
  "error_response rt e =
     \<lparr>content_text = ''Error: '' @ message rt e @ nl @ ''Stack: '' @ error_stack rt e,
      isError = True\<rparr>"

definition handler ::
  "runtime \<Rightarrow> 's engine \<Rightarrow> string \<Rightarrow> args option \<Rightarrow> 's world \<Rightarrow> response \<times> 's world"
where
  "handler rt eng tool a w =
     (case tool_call rt eng tool a w of
        (Inl e, w') \<Rightarrow> (error_response rt e, w')
      | (Inr r, w') \<Rightarrow> (r, w'))"

section \<open>A stand-in engine and host\<close>

text \<open>
  Modelled from the spec: the engine interface of section 4.2 (the engine itself is
  third-party code outside the repository). \<open>reset_params\<close> restores a baseline,
  \<open>set_param\<close> stores a value and raises on a name the engine does not know,
  \<open>randomize_params\<close> draws its values from \<open>Math.random()\<close> in a fixed order,
  \<open>generate_sound\<close> raises on a decay below the floor 0.03 and otherwise returns a
  sound that records the parameters it was rendered from. The baseline values and
  what a preset sets are stand-ins; the theorems about the wrapper hold for every
  engine, and this one only instantiates them at concrete inputs.
\<close>

definition parameter_names :: "string list" where
  "parameter_names =
     [''waveType'', ''frequency_start'', ''frequency_slide'', ''attackTime'',
      ''sustainTime'', ''decayTime'', ''vibratoDepth'', ''vibratoSpeed'']"

definition default_params :: params where
  "default_params =
     map_of [(''waveType'', 0), (''frequency_start'', 1 / 2), (''frequency_slide'', 0),
             (''attackTime'', 0), (''sustainTime'', 3 / 10), (''decayTime'', 2 / 5),
             (''vibratoDepth'', 0), (''vibratoSpeed'', 0)]"

type_synonym rendered = "(string \<times> rat option) list"

definition rendered_from :: "params \<Rightarrow> rendered" where
  "rendered_from p = map (\<lambda>k. (k, p k)) parameter_names"

definition stand_in :: "rendered engine" where
  "stand_in =
     \<lparr>reset_params = (\<lambda>p. default_params),
      generate_pickup_coin = (\<lambda>p. Ret (p(''waveType'' \<mapsto> 1))),
      generate_laser_shoot = (\<lambda>p. Ret (p(''waveType'' \<mapsto> 2))),
      generate_explosion = (\<lambda>p. Ret (p(''waveType'' \<mapsto> 3))),
      generate_powerup = (\<lambda>p. Ret (p(''waveType'' \<mapsto> 4))),
      generate_hit_hurt = (\<lambda>p. Ret (p(''waveType'' \<mapsto> 5))),
      generate_jump = (\<lambda>p. Ret (p(''waveType'' \<mapsto> 6))),
      generate_blip_select = (\<lambda>p. Ret (p(''waveType'' \<mapsto> 7))),
      set_param = (\<lambda>key val p.
         if key \<in> set parameter_names then Inr (p(key \<mapsto> val))
         else Inl (Error (''Unsupported parameter: '' @ key))),
      randomize_params = (\<lambda>p.
         Draw (\<lambda>x. Draw (\<lambda>y.
           Ret (default_params(''frequency_start'' \<mapsto> x, ''sustainTime'' \<mapsto> y))))),
      generate_sound = (\<lambda>p.
         case p ''decayTime'' of
           None \<Rightarrow> Ret (Inl (Error ''Render failed''))
         | Some d \<Rightarrow>
             if d < 3 / 100 then Ret (Inl (Error ''Render failed''))
             else Ret (Inr (rendered_from p))),
      getDataUri = (\<lambda>s. ''data:audio/wav;base64,UklGRg=='')\<rparr>"


text \<open>
  A host for the concrete runs: a built-in generator that always returns one half, no
  refusal of the file system, a decoder that knows the payload of the stand-in engine,
  and number texts cut after the digits they show.
\<close>

definition host :: runtime where
  "host =
     \<lparr>ambient = (\<lambda>n. 1 / 2),
      type_error_message = (\<lambda>f. ''TypeError''),
      error_stack = (\<lambda>e. ''at handler''),
      mkdir_error = (\<lambda>path. None),
      write_error = (\<lambda>path. None),
      base64_decode = (\<lambda>s. if s = ''UklGRg=='' then [82, 73, 70, 70] else []),
      number_to_string = (\<lambda>q. show_int \<lfloor>q\<rfloor>),
      toFixed2 = (\<lambda>q. show_int \<lfloor>q\<rfloor> @ ''.'' @
                     show_nat (nat (\<lfloor>q * 10\<rfloor> mod 10)) @
                     show_nat (nat (\<lfloor>q * 100\<rfloor> mod 10)))\<rparr>"

text \<open>The state of a process that has rendered nothing yet, and an empty argument bag.\<close>

definition fresh :: "rendered world" where
  "fresh = \<lparr>params = default_params, sound = None, random = Builtin 0, files = Map.empty\<rparr>"

definition request :: args where
  "request = \<lparr>type = None, customParams = None, parameters = None, seed = None, filepath = None\<rparr>"

text \<open>
  The state after \<open>create_custom_sound\<close> with \<open>frequency_start = 0.7\<close> in a fresh
  process (lemma \<open>createCustomSound_ready\<close>).
\<close>

definition custom_params :: params where
  "custom_params = default_params(''frequency_start'' \<mapsto> 7 / 10)"

definition ready :: "rendered world" where
  "ready = fresh\<lparr>params := custom_params, sound := Some (rendered_from custom_params)\<rparr>"

section \<open>Facts about the model\<close>

lemmas action_defs = bind_def return_def throw_def reply_def destructure_def this_bfxr_sound_def

lemma bind_assoc: "bind (bind m f) g = bind m (\<lambda>x. bind (f x) g)"
  by (rule ext) (simp add: bind_def split: prod.splits sum.splits)

subsection \<open>The seeded generator\<close>

text \<open>Integers up to \<open>2 ^ 53\<close> in magnitude are doubles: rounding leaves them alone.\<close>

lemma bitlen_small: "0 \<le> m \<Longrightarrow> m < 2 ^ 53 \<Longrightarrow> bitlen m \<le> 53"
proof (cases "m = 0")
  case True
  then show ?thesis by simp
next
  case False
  assume "0 \<le> m" "m < 2 ^ 53"
  with False have pos: "0 < m" by simp
  from bitlen_bounds [OF pos] \<open>m < 2 ^ 53\<close>
  have "(2::int) ^ nat (bitlen m - 1) < 2 ^ 53" by linarith
  then have "nat (bitlen m - 1) < 53" by (rule power_less_imp_less_exp [rotated]) simp
  then show ?thesis by linarith
qed

lemma bitlen_2_53: "bitlen 9007199254740992 = 54"
proof -
  have "bitlen (1 * 2 ^ 53) = bitlen 1 + int 53" by (rule bitlen_pow2) simp
  moreover have "bitlen 1 = 1" by (simp add: bitlen_alt_def)
  ultimately show ?thesis by simp
qed

lemma round_double_exact: "\<bar>x\<bar> \<le> 2 ^ 53 \<Longrightarrow> round_double x = x"
proof (cases "\<bar>x\<bar> = 2 ^ 53")
  case True
  then have "x = 9007199254740992 \<or> x = - 9007199254740992" by simp linarith
  then show ?thesis
    by (auto simp: round_double_def Let_def bitlen_2_53)
next
  case False
  assume "\<bar>x\<bar> \<le> 2 ^ 53"
  with False have "\<bar>x\<bar> < 2 ^ 53" by linarith
  then have "bitlen \<bar>x\<bar> \<le> 53" by (intro bitlen_small) simp_all
  then have "nat (bitlen \<bar>x\<bar> - 53) = 0" by simp
  then show ?thesis
    by (simp add: round_double_def Let_def mult_sgn_abs)
qed

text \<open>
  So for a seed or state up to 968411918577 in magnitude the step of the generator is
  the truncating remainder of the exact sum. On a sum that is not negative this is the
  mathematical \<open>mod\<close>; a negative seed can give negative states, as \<open>-6\<close> does.
  Beyond the bound the rounding shows, as at the seed \<open>10 ^ 15\<close>.
\<close>

lemma lcg_next_exact:
  assumes "\<bar>t\<bar> \<le> 968411918577"
  shows "lcg_next t = sgn (t * 9301 + 49297) * (\<bar>t * 9301 + 49297\<bar> mod 233280)"
proof -
  have a: "\<bar>t * 9301\<bar> \<le> 2 ^ 53" using assms by (simp add: abs_mult)
  have b: "\<bar>t * 9301 + 49297\<bar> \<le> 2 ^ 53" using assms by (simp add: abs_le_iff)
  show ?thesis
    by (simp add: lcg_next_def js_rem_def round_double_exact [OF a] round_double_exact [OF b])
qed

lemma lcg_next_mod:
  "0 \<le> s \<Longrightarrow> s \<le> 968411918577 \<Longrightarrow> lcg_next s = (s * 9301 + 49297) mod 233280"
  by (simp add: lcg_next_exact sgn_if)

lemma lcg_next_negative: "lcg_next (- 6) = - 6509"
  by (simp add: lcg_next_exact)

lemma lcg_next_rounded:
  "lcg_next 1000000000000000 = 149632"
  "(1000000000000000 * 9301 + 49297) mod 233280 = (149777::int)"
  by code_simp+

text \<open>A program that starts on the seeded generator never sees the built-in one.\<close>

lemma run_seeded_any_host: "run rt p (Seeded s) = run rt' p (Seeded s)"
  by (induction p arbitrary: s) simp_all

lemma run_seeded_stays_seeded: "\<exists>n. snd (run rt p (Seeded s)) = Seeded ((lcg_next ^^ n) s)"
proof (induction p arbitrary: s)
  case (Ret a)
  have "snd (run rt (Ret a) (Seeded s)) = Seeded ((lcg_next ^^ 0) s)" by simp
  then show ?case by blast
next
  case (Draw k)
  obtain n where
    "snd (run rt (k (rat_of_int (lcg_next s) / 233280)) (Seeded (lcg_next s))) =
       Seeded ((lcg_next ^^ n) (lcg_next s))"
    using Draw.IH [of "k (rat_of_int (lcg_next s) / 233280)" "lcg_next s"] by auto
  then have "snd (run rt (Draw k) (Seeded s)) = Seeded ((lcg_next ^^ Suc n) s)"
    by (simp add: funpow_swap1)
  then show ?case by blast
qed

lemma calls_seeded:
  "calls rt (Seeded s) n = map (\<lambda>i. rat_of_int ((lcg_next ^^ Suc i) s) / 233280) [0..<n]"
proof (induction n arbitrary: s)
  case 0
  show ?case by simp
next
  case (Suc n)
  have "calls rt (Seeded s) (Suc n) =
          rat_of_int (lcg_next s) / 233280 # calls rt (Seeded (lcg_next s)) n"
    by simp
  also have "\<dots> = rat_of_int (lcg_next s) / 233280 #
                 map (\<lambda>i. rat_of_int ((lcg_next ^^ Suc i) (lcg_next s)) / 233280) [0..<n]"
    by (simp only: Suc.IH)
  also have "\<dots> = map (\<lambda>i. rat_of_int ((lcg_next ^^ Suc i) s) / 233280) [0..<Suc n]"
    by (simp add: map_upt_Suc funpow_swap1 del: upt_Suc)
  finally show ?case .
qed

subsection \<open>randomizeSound, step by step\<close>

lemma randomizeSound_seeded:
  "randomizeSound rt eng (Some s) w =
     (case run rt (randomize_params eng (params w)) (Seeded s) of
        (p, r) \<Rightarrow>
          (case run rt (generate_sound eng p) r of
             (Inl e, r') \<Rightarrow> (Inl e, w\<lparr>params := p, random := r'\<rparr>)
           | (Inr x, r') \<Rightarrow> (Inr (Some x), w\<lparr>params := p, sound := Some x, random := r'\<rparr>)))"
  by (simp add: randomizeSound_def install_seed_def call_random_def call_generate_sound_def
      action_defs split: prod.splits sum.splits)

lemma randomizeSound_unseeded:
  "randomizeSound rt eng None w =
     (case run rt (randomize_params eng (params w)) (random w) of
        (p, r) \<Rightarrow>
          (case run rt (generate_sound eng p) r of
             (Inl e, r') \<Rightarrow> (Inl e, w\<lparr>params := p, random := r'\<rparr>)
           | (Inr x, r') \<Rightarrow> (Inr (Some x), w\<lparr>params := p, sound := Some x, random := r'\<rparr>)))"
  by (simp add: randomizeSound_def install_seed_def call_random_def call_generate_sound_def
      action_defs split: prod.splits sum.splits)

lemma randomize_from_seeded_stays_seeded:
  "\<exists>n. random (snd (case run rt (randomize_params eng (params v)) (Seeded k) of
        (p, r) \<Rightarrow>
          (case run rt (generate_sound eng p) r of
             (Inl e, r') \<Rightarrow> (Inl e, v\<lparr>params := p, random := r'\<rparr>)
           | (Inr x, r') \<Rightarrow> (Inr (Some x), v\<lparr>params := p, sound := Some x, random := r'\<rparr>)))) =
      Seeded ((lcg_next ^^ n) k)"
proof -
  obtain p r where pr: "run rt (randomize_params eng (params v)) (Seeded k) = (p, r)"
    by (cases "run rt (randomize_params eng (params v)) (Seeded k)")
  obtain i where i: "r = Seeded ((lcg_next ^^ i) k)"
    using run_seeded_stays_seeded [of rt "randomize_params eng (params v)" k] pr by auto
  obtain x r' where xr: "run rt (generate_sound eng p) r = (x, r')"
    by (cases "run rt (generate_sound eng p) r")
  obtain j where j: "r' = Seeded ((lcg_next ^^ j) ((lcg_next ^^ i) k))"
    using run_seeded_stays_seeded [of rt "generate_sound eng p" "(lcg_next ^^ i) k"] xr i
    by auto
  have "r' = Seeded ((lcg_next ^^ (j + i)) k)"
    using j by (simp add: funpow_add)
  then show ?thesis
    using pr xr by (cases x) auto
qed

text \<open>
  Two calls with the same seed run the same programs on the same generator, when the
  engine's randomisation program is the same in both states.
\<close>

lemma same_seed_same_run:
  assumes "randomize_params eng (params w1) = randomize_params eng (params w2)"
  shows "fst (randomizeSound rt1 eng (Some s) w1) = fst (randomizeSound rt2 eng (Some s) w2)
       \<and> params (snd (randomizeSound rt1 eng (Some s) w1)) =
           params (snd (randomizeSound rt2 eng (Some s) w2))
       \<and> random (snd (randomizeSound rt1 eng (Some s) w1)) =
           random (snd (randomizeSound rt2 eng (Some s) w2))"
proof -
  obtain p r where pr: "run rt1 (randomize_params eng (params w1)) (Seeded s) = (p, r)"
    by (cases "run rt1 (randomize_params eng (params w1)) (Seeded s)")
  have "run rt2 (randomize_params eng (params w2)) (Seeded s) =
          run rt1 (randomize_params eng (params w2)) (Seeded s)"
    by (rule run_seeded_any_host)
  with pr assms have pr2: "run rt2 (randomize_params eng (params w2)) (Seeded s) = (p, r)"
    by simp
  obtain m where r: "r = Seeded m"
    using run_seeded_stays_seeded [of rt1 "randomize_params eng (params w1)" s] pr by auto
  have g: "run rt1 (generate_sound eng p) r = run rt2 (generate_sound eng p) r"
    unfolding r by (rule run_seeded_any_host)
  show ?thesis
    by (simp add: randomizeSound_seeded pr pr2 g split: prod.splits sum.splits)
qed

subsection \<open>Setting the entries of a request\<close>




subsection \<open>The three generation operations end alike\<close>

lemma generateSoundEffect_tail:
  "generateSoundEffect rt eng ty cp =
     bind (bind (call_reset_params eng) (\<lambda>_. bind (preset_switch rt eng ty)
            (\<lambda>_. set_entries eng (case cp of None \<Rightarrow> [] | Some c \<Rightarrow> c))))
       (\<lambda>_. bind (call_generate_sound rt eng) (\<lambda>_. this_bfxr_sound))"
  by (simp add: generateSoundEffect_def bind_assoc)

lemma createCustomSound_tail:
  "createCustomSound rt eng ps =
     bind (bind (call_reset_params eng)
            (\<lambda>_. case ps of None \<Rightarrow> throw (TypeError EntriesOfUndefined)
                           | Some kvs \<Rightarrow> set_entries eng kvs))
       (\<lambda>_. bind (call_generate_sound rt eng) (\<lambda>_. this_bfxr_sound))"
  by (simp add: createCustomSound_def bind_assoc)

lemma randomizeSound_tail:
  "randomizeSound rt eng sd =
     bind (bind (install_seed sd) (\<lambda>_. call_random rt (randomize_params eng)))
       (\<lambda>_. bind (call_generate_sound rt eng) (\<lambda>_. this_bfxr_sound))"
  by (simp add: randomizeSound_def bind_assoc)

text \<open>
  When such an operation returns, the sound it returns is the stored one, and it was
  rendered from the parameters the engine holds at that moment.
\<close>

lemma rendered_tail:
  assumes "bind m (\<lambda>_. bind (call_generate_sound rt eng) (\<lambda>_. this_bfxr_sound)) w = (Inr x, w')"
  shows "\<exists>s r. x = Some s \<and> sound w' = Some s
           \<and> run rt (generate_sound eng (params w')) r = (Inr s, random w')"
proof (cases "m w")
  case (Pair res w0)
  show ?thesis
  proof (cases res)
    case (Inl e)
    with Pair assms show ?thesis by (simp add: bind_def)
  next
    case (Inr u)
    obtain y r' where run: "run rt (generate_sound eng (params w0)) (random w0) = (y, r')"
      by (cases "run rt (generate_sound eng (params w0)) (random w0)")
    show ?thesis
    proof (cases y)
      case (Inl e)
      with Pair Inr run assms show ?thesis
        by (simp add: bind_def call_generate_sound_def)
    next
      case (Inr s)
      with Pair \<open>res = Inr u\<close> run assms
      have "x = Some s" and "w' = w0\<lparr>sound := Some s, random := r'\<rparr>"
        by (auto simp: bind_def call_generate_sound_def this_bfxr_sound_def)
      with run Inr show ?thesis by auto
    qed
  qed
qed

subsection \<open>get_parameters\<close>

lemma get_parameters_read_only: "snd (handler rt eng ''get_parameters'' a w) = w"
  by (simp add: handler_def tool_call_def action_defs split: sum.splits)

text \<open>\<open>get_parameters\<close> never looks at the sound: it answers the same with and without one.\<close>

lemma get_parameters_ignores_sound:
  "fst (handler rt eng ''get_parameters'' a (w\<lparr>sound := x\<rparr>)) =
     fst (handler rt eng ''get_parameters'' a w)"
  by (simp add: handler_def tool_call_def getCurrentParameters_def action_defs
      split: sum.splits)

subsection \<open>The handler\<close>

text \<open>
  Every normal return of the body of the handler is a response without \<open>isError\<close>, so
  the flag is set exactly when the body raised.
\<close>

lemma saveWavFile_reply:
  "bind (saveWavFile rt eng fp t) (\<lambda>result. reply (save_message result)) w = (Inr r, w') \<Longrightarrow>
     \<not> isError r"
  by (auto simp: action_defs split: prod.splits sum.splits)

lemma bind_reply:
  "bind m (\<lambda>_. bind (saveWavFile rt eng fp t) (\<lambda>result. reply (save_message result))) w =
     (Inr r, w') \<Longrightarrow> \<not> isError r"
  by (auto simp: bind_def [of m] split: prod.splits sum.splits dest: saveWavFile_reply)

lemma six_names:
  assumes "t = a \<Longrightarrow> P" "t = b \<Longrightarrow> P" "t = c \<Longrightarrow> P" "t = d \<Longrightarrow> P" "t = e \<Longrightarrow> P"
    "t = f \<Longrightarrow> P"
    "t \<noteq> a \<Longrightarrow> t \<noteq> b \<Longrightarrow> t \<noteq> c \<Longrightarrow> t \<noteq> d \<Longrightarrow> t \<noteq> e \<Longrightarrow> t \<noteq> f \<Longrightarrow> P"
  shows P
  using assms by blast

lemma normal_return_is_no_error:
  assumes "tool_call rt eng tool a w = (Inr r, w')"
  shows "\<not> isError r"
proof (rule six_names [of tool "''generate_sound_effect''" _ "''create_custom_sound''"
      "''randomize_sound''" "''export_wav''" "''get_parameters''" "''list_presets''"])
  assume "tool = ''generate_sound_effect''"
  with assms show ?thesis
    by (cases a) (auto simp: tool_call_def destructure_def throw_def dest: bind_reply)
next
  assume "tool = ''create_custom_sound''"
  with assms show ?thesis
    by (cases a) (auto simp: tool_call_def destructure_def throw_def dest: bind_reply)
next
  assume "tool = ''randomize_sound''"
  with assms show ?thesis
    by (cases a) (auto simp: tool_call_def destructure_def throw_def dest: bind_reply)
next
  assume "tool = ''export_wav''"
  with assms show ?thesis
    by (cases a; cases "sound w")
      (auto simp: tool_call_def destructure_def throw_def bind_def [of this_bfxr_sound]
        this_bfxr_sound_def reply_def return_def dest: saveWavFile_reply [unfolded reply_def])
next
  assume "tool = ''get_parameters''"
  with assms show ?thesis
    by (auto simp: tool_call_def throw_def reply_def return_def split: sum.splits)
next
  assume "tool = ''list_presets''"
  with assms show ?thesis
    by (auto simp: tool_call_def reply_def return_def)
next
  assume "tool \<noteq> ''generate_sound_effect''" "tool \<noteq> ''create_custom_sound''"
    "tool \<noteq> ''randomize_sound''" "tool \<noteq> ''export_wav''" "tool \<noteq> ''get_parameters''"
    "tool \<noteq> ''list_presets''"
  with assms show ?thesis
    by (simp add: tool_call_def throw_def)
qed

lemma isError_iff_raised:
  "isError (fst (handler rt eng tool a w)) = (\<exists>e. fst (tool_call rt eng tool a w) = Inl e)"
proof (cases "tool_call rt eng tool a w")
  case (Pair res w')
  show ?thesis
  proof (cases res)
    case (Inl e)
    with Pair show ?thesis by (simp add: handler_def error_response_def)
  next
    case (Inr r)
    with Pair normal_return_is_no_error [of rt eng tool a w r w'] show ?thesis
      by (simp add: handler_def)
  qed
qed

subsection \<open>The message of randomize_sound\<close>

text \<open>
  A successful \<open>randomize_sound\<close> names the seed in its message exactly when
  \<open>seed_suffix\<close> is not empty, which it is for every seed but 0.
\<close>

lemma saveWavFile_message:
  assumes "saveWavFile rt eng fp t w = (Inr result, w')"
  shows "\<exists>n. save_message result =
           ''Generated '' @ t @ '' sound!'' @ nl @ ''Saved to: '' @ filePath result @ nl @
           ''File size: '' @ show_nat n @ '' bytes''"
  using assms
  by (auto simp: saveWavFile_def getWavData_def host_step_def write_file_def bind_def
      return_def throw_def split: option.splits prod.splits sum.splits)

lemma randomize_sound_message:
  assumes "tool_call rt eng ''randomize_sound'' (Some v) w = (Inr r, w')"
  shows "\<exists>path n. content_text r =
           ''Generated random'' @ seed_suffix (seed v) @ '' sound!'' @ nl @
           ''Saved to: '' @ path @ nl @ ''File size: '' @ show_nat n @ '' bytes''"
proof -
  from assms obtain w1 result where
    "saveWavFile rt eng (filepath v) (''random'' @ seed_suffix (seed v)) w1 = (Inr result, w')"
    and "r = \<lparr>content_text = save_message result, isError = False\<rparr>"
    by (auto simp: tool_call_def destructure_def bind_def reply_def return_def
        split: prod.splits sum.splits)
  with saveWavFile_message [of rt eng "filepath v" "''random'' @ seed_suffix (seed v)" w1 result w']
  show ?thesis by auto
qed

lemma seed_suffix_nonzero: "s \<noteq> 0 \<Longrightarrow> seed_suffix (Some s) = '' (seed: '' @ show_int s @ '')''"
  by (simp add: seed_suffix_def)

subsection \<open>A run of the stand-in engine\<close>

lemma createCustomSound_ready:
  "createCustomSound host stand_in (Some [(''frequency_start'', 7 / 10)]) fresh =
     (Inr (Some (rendered_from custom_params)), ready)"
  by (simp add: createCustomSound_def call_reset_params_def call_set_param_def
      call_generate_sound_def action_defs stand_in_def parameter_names_def default_params_def
      fresh_def ready_def custom_params_def)

subsection \<open>One step of the seeded generator\<close>


subsection \<open>A failed generation keeps the sound\<close>








subsection \<open>Right after a generation\<close>

text \<open>
  When one of the three generation operations has just returned, the parameters the
  engine holds are the ones the stored sound was rendered from.
\<close>

lemma current_parameters_after_generation:
  assumes "operation \<in> {generateSoundEffect rt eng ty cp, createCustomSound rt eng ps,
                         randomizeSound rt eng sd}"
    and "operation w = (Inr x, w')"
  shows "\<exists>s r. x = Some s \<and> sound w' = Some s
           \<and> run rt (generate_sound eng (getCurrentParameters w')) r = (Inr s, random w')"
proof -
  from assms(1) consider
      "operation = generateSoundEffect rt eng ty cp"
    | "operation = createCustomSound rt eng ps"
    | "operation = randomizeSound rt eng sd"
    by blast
  then show ?thesis
  proof cases
    case 1
    from assms(2) [unfolded 1 generateSoundEffect_tail] show ?thesis
      unfolding getCurrentParameters_def by (rule rendered_tail)
  next
    case 2
    from assms(2) [unfolded 2 createCustomSound_tail] show ?thesis
      unfolding getCurrentParameters_def by (rule rendered_tail)
  next
    case 3
    from assms(2) [unfolded 3 randomizeSound_tail] show ?thesis
      unfolding getCurrentParameters_def by (rule rendered_tail)
  qed
qed

section \<open>The claims\<close>

text \<open>
  C1, as the code has it. The claim says that a randomize call with a seed restores
  the random source that was in place before it. The code assigns \<open>Math.random\<close> and
  never assigns it back: after the stand-in engine has randomized with seed 1 from a
  fresh process, the installed source is the seeded generator in its second state, and
  a following call without a seed gets the generator's third value, not a value of the
  built-in source.
\<close>

theorem randomize_seed_not_restored:
  "random fresh = Builtin 0
   \<and> random (snd (randomizeSound host stand_in (Some 1) fresh)) = Seeded 127215
   \<and> params (snd (randomizeSound host stand_in None
                    (snd (randomizeSound host stand_in (Some 1) fresh)))) ''frequency_start'' =
       Some (79852 / 233280)"
  by (simp add: randomizeSound_seeded randomizeSound_unseeded fresh_def stand_in_def
      default_params_def lcg_next_exact)

text \<open>
  C1, amended: for every engine, seed and state, when a randomize call with a seed
  returns or raises, the installed random source is the seeded generator, advanced by
  the draws of the call, and the next call of \<open>Math.random()\<close> by anyone returns the
  generator's next value. A randomize call without a seed leaves a seeded generator
  that is installed in place.
\<close>

theorem randomize_seed_stays_installed:
  "(\<exists>n. random (snd (randomizeSound rt eng (Some s) w)) = Seeded ((lcg_next ^^ n) s)
        \<and> Math_random rt' (random (snd (randomizeSound rt eng (Some s) w))) =
            (rat_of_int ((lcg_next ^^ Suc n) s) / 233280, Seeded ((lcg_next ^^ Suc n) s)))
   \<and> (\<exists>n. random (snd (randomizeSound rt eng None (w\<lparr>random := Seeded m\<rparr>))) =
            Seeded ((lcg_next ^^ n) m))"
proof -
  obtain n where n: "random (snd (randomizeSound rt eng (Some s) w)) = Seeded ((lcg_next ^^ n) s)"
    using randomize_from_seeded_stays_seeded [where rt = rt and eng = eng and v = w and k = s]
    by (auto simp: randomizeSound_seeded)
  have first: "\<exists>n. random (snd (randomizeSound rt eng (Some s) w)) = Seeded ((lcg_next ^^ n) s)
        \<and> Math_random rt' (random (snd (randomizeSound rt eng (Some s) w))) =
            (rat_of_int ((lcg_next ^^ Suc n) s) / 233280, Seeded ((lcg_next ^^ Suc n) s))"
    using n by (intro exI [of _ n]) simp
  have second: "\<exists>n. random (snd (randomizeSound rt eng None (w\<lparr>random := Seeded m\<rparr>))) =
            Seeded ((lcg_next ^^ n) m)"
    using randomize_from_seeded_stays_seeded
      [where rt = rt and eng = eng and v = "w\<lparr>random := Seeded m\<rparr>" and k = m]
    by (simp add: randomizeSound_unseeded)
  from first second show ?thesis by blast
qed







text \<open>
  C4, as the code has it. The claim says that \<open>export_wav\<close> in a process that has
  rendered nothing answers with an error response. The code answers with a normal
  response: the flag \<open>isError\<close> is not set.
\<close>

theorem export_wav_empty_is_not_an_error:
  "\<not> isError (fst (handler host stand_in ''export_wav''
                      (Some (request\<lparr>filepath := Some ''/tmp/out.wav''\<rparr>)) fresh))"
  by (simp add: handler_def tool_call_def action_defs fresh_def)

text \<open>
  C4, amended: while no sound has been rendered, \<open>export_wav\<close> with an argument bag
  raises nothing, writes nothing and changes nothing; it returns a normal response
  (no \<open>isError\<close>) whose text is the guidance to generate a sound first.
\<close>

theorem export_wav_empty_guidance:
  "handler rt eng ''export_wav'' (Some v) (w\<lparr>sound := None\<rparr>) =
     (\<lparr>content_text = ''No sound generated yet. Please generate a sound first.'',
       isError = False\<rparr>, w\<lparr>sound := None\<rparr>)"
  by (simp add: handler_def tool_call_def action_defs)

text \<open>
  C5: whatever the tool name, the arguments and the state, an error raised in the body
  of the handler is answered: the handler returns a response with \<open>isError\<close> set whose
  text carries the message of the error (and its stack), together with the state the
  body had reached.
\<close>

theorem handler_answers_every_error:
  assumes "tool_call rt eng tool a w = (Inl e, w')"
  shows "handler rt eng tool a w =
           (\<lparr>content_text = ''Error: '' @ message rt e @ nl @ ''Stack: '' @ error_stack rt e,
             isError = True\<rparr>, w')"
  using assms by (simp add: handler_def error_response_def)

text \<open>The witness: a tool the server does not have.\<close>

theorem handler_answers_every_error_witness:
  "handler host stand_in ''play_sound'' None fresh =
     (\<lparr>content_text = ''Error: Unknown tool: play_sound'' @ nl @ ''Stack: at handler'',
       isError = True\<rparr>, fresh)"
proof -
  have "tool_call host stand_in ''play_sound'' None fresh =
          (Inl (Error ''Unknown tool: play_sound''), fresh)"
    by (simp add: tool_call_def throw_def)
  from handler_answers_every_error [OF this] show ?thesis
    by (simp add: message_def host_def)
qed

text \<open>
  C6, as the code has it. The claim says that a call with an unknown type changes no
  state. The code resets the engine's parameters before it looks at the type: after a
  custom sound with \<open>frequency_start = 0.7\<close>, the failed call leaves the baseline 0.5.
\<close>

theorem unknown_type_changes_parameters:
  "params (snd (createCustomSound host stand_in (Some [(''frequency_start'', 7 / 10)]) fresh))
     ''frequency_start'' = Some (7 / 10)
   \<and> fst (generateSoundEffect host stand_in (Some ''zap'') None
        (snd (createCustomSound host stand_in (Some [(''frequency_start'', 7 / 10)]) fresh))) =
       Inl (Error ''Unknown sound type: zap'')
   \<and> params (snd (generateSoundEffect host stand_in (Some ''zap'') None
        (snd (createCustomSound host stand_in (Some [(''frequency_start'', 7 / 10)]) fresh))))
     ''frequency_start'' = Some (1 / 2)"
  unfolding createCustomSound_ready
  by (simp add: generateSoundEffect_def preset_switch_def call_reset_params_def bind_def
      throw_def shown_def stand_in_def default_params_def ready_def custom_params_def)

text \<open>
  C6, amended: for every type that is not one of the seven presets (a missing type
  included), \<open>generateSoundEffect\<close> raises the error "Unknown sound type: ..." and
  leaves the stored sound, the random source and the files as they were; the engine's
  parameters have been reset.
\<close>

theorem unknown_type_resets_parameters:
  assumes "ty \<notin> Some ` name ` set getPresets"
  shows "generateSoundEffect rt eng ty cp w =
           (Inl (Error (''Unknown sound type: '' @ shown ty)),
            w\<lparr>params := reset_params eng (params w)\<rparr>)"
  using assms
  by (simp add: generateSoundEffect_def preset_switch_def getPresets_def
      call_reset_params_def bind_def throw_def)

text \<open>The witness: the type \<open>zap\<close>.\<close>

theorem unknown_type_resets_parameters_witness:
  "generateSoundEffect host stand_in (Some ''zap'') None fresh =
     (Inl (Error ''Unknown sound type: zap''), fresh\<lparr>params := default_params\<rparr>)"
proof -
  have "Some ''zap'' \<notin> Some ` name ` set getPresets"
    by (simp add: getPresets_def)
  from unknown_type_resets_parameters [OF this, of host stand_in None fresh]
  show ?thesis by (simp add: shown_def stand_in_def)
qed

text \<open>
  C7, at an input where the code fails the claim: after a custom sound with
  \<open>frequency_start = 0.7\<close>, a \<open>generate_sound_effect\<close> with an unknown type fails. The
  stored sound, the one \<open>export_wav\<close> would write, is still the custom sound; the
  parameters \<open>getCurrentParameters\<close> returns are the baseline the failed call has
  reset them to, and \<open>get_parameters\<close> reports the frequency 0.50.
\<close>

theorem get_parameters_after_failed_call:
  "sound (snd (createCustomSound host stand_in (Some [(''frequency_start'', 7 / 10)]) fresh)) =
     Some (rendered_from (default_params(''frequency_start'' \<mapsto> 7 / 10)))
   \<and> fst (generateSoundEffect host stand_in (Some ''zap'') None
          (snd (createCustomSound host stand_in (Some [(''frequency_start'', 7 / 10)]) fresh))) =
       Inl (Error ''Unknown sound type: zap'')
   \<and> sound (snd (generateSoundEffect host stand_in (Some ''zap'') None
          (snd (createCustomSound host stand_in (Some [(''frequency_start'', 7 / 10)]) fresh)))) =
       Some (rendered_from (default_params(''frequency_start'' \<mapsto> 7 / 10)))
   \<and> getCurrentParameters
        (snd (generateSoundEffect host stand_in (Some ''zap'') None
          (snd (createCustomSound host stand_in (Some [(''frequency_start'', 7 / 10)]) fresh))))
        ''frequency_start'' = Some (1 / 2)
   \<and> fst (handler host stand_in ''get_parameters'' None
        (snd (generateSoundEffect host stand_in (Some ''zap'') None
          (snd (createCustomSound host stand_in (Some [(''frequency_start'', 7 / 10)]) fresh))))) =
       \<lparr>content_text =
          ''Current sound parameters:'' @ nl @ ''Wave: 0 | Freq: 0.50'' @ nl @
          ''Envelope: A0.00 S0.30 D0.40'' @ nl @ ''Vibrato: none | Slide: none'',
        isError = False\<rparr>"
  unfolding createCustomSound_ready
  by (simp add: generateSoundEffect_def preset_switch_def call_reset_params_def bind_def
      throw_def shown_def getCurrentParameters_def stand_in_def default_params_def
      ready_def custom_params_def handler_def tool_call_def parameters_text_def fixed_def
      number_text_def vibrato_text_def slide_text_def reply_def return_def host_def
      show_int_def show_nat.simps digit_def)

text \<open>
  C8, at the seed the code misses: \<open>randomize_sound\<close> with seed 0 succeeds, and its
  message does not name the seed, because the message tests the seed for truth.
\<close>

theorem randomize_seed_zero_not_echoed:
  "fst (handler host stand_in ''randomize_sound''
          (Some (request\<lparr>seed := Some 0, filepath := Some ''/tmp/r.wav''\<rparr>)) fresh) =
     \<lparr>content_text =
        ''Generated random sound!'' @ nl @ ''Saved to: /tmp/r.wav'' @ nl @ ''File size: 4 bytes'',
      isError = False\<rparr>"
  by (simp add: handler_def tool_call_def randomizeSound_seeded saveWavFile_def getWavData_def
      host_step_def write_file_def seed_suffix_def action_defs request_def fresh_def
      stand_in_def host_def default_params_def show_nat.simps digit_def split: prod.splits)

text \<open>
  C9: \<open>getPresets\<close> has exactly seven entries, one for each of pickup, laser,
  explosion, powerup, hit, jump and blip, in this order, among them laser with the
  description "Laser/Shoot sounds"; and \<open>list_presets\<close>, in every state and with any
  arguments, changes nothing and returns the seven entries as seven lines of text.
\<close>

theorem list_presets_seven_entries:
  "length getPresets = 7
   \<and> map name getPresets =
       [''pickup'', ''laser'', ''explosion'', ''powerup'', ''hit'', ''jump'', ''blip'']
   \<and> \<lparr>name = ''laser'', description = ''Laser/Shoot sounds''\<rparr> \<in> set getPresets
   \<and> handler rt eng ''list_presets'' a w = (\<lparr>content_text = presets_text, isError = False\<rparr>, w)
   \<and> presets_text =
       ''Available presets:'' @ nl @
       bullet @ '' pickup: Pickup/Coin sounds'' @ nl @
       bullet @ '' laser: Laser/Shoot sounds'' @ nl @
       bullet @ '' explosion: Explosion sounds'' @ nl @
       bullet @ '' powerup: Powerup sounds'' @ nl @
       bullet @ '' hit: Hit/Hurt sounds'' @ nl @
       bullet @ '' jump: Jump sounds'' @ nl @
       bullet @ '' blip: UI/Select sounds''"
  by (simp add: getPresets_def handler_def tool_call_def presets_text_def reply_def return_def)

text \<open>
  C10: seed 0 is a seed like any other. \<open>randomizeSound\<close> with seed 0 is the engine's
  randomisation and rendering run on the seeded generator that starts from state 0,
  whose first two values are 49297 / 233280 and 165494 / 233280; so two such calls
  from the same engine parameters give the same result, the same parameters and the
  same generator state, whatever the hosts' built-in generators and whatever source,
  sound and files were there before.
\<close>

theorem randomize_seed_zero_is_seeded:
  "randomizeSound rt eng (Some 0) w =
     (case run rt (randomize_params eng (params w)) (Seeded 0) of
        (p, r) \<Rightarrow>
          (case run rt (generate_sound eng p) r of
             (Inl e, r') \<Rightarrow> (Inl e, w\<lparr>params := p, random := r'\<rparr>)
           | (Inr x, r') \<Rightarrow> (Inr (Some x), w\<lparr>params := p, sound := Some x, random := r'\<rparr>)))
   \<and> Math_random rt (Seeded 0) = (49297 / 233280, Seeded 49297)
   \<and> Math_random rt (Seeded 49297) = (165494 / 233280, Seeded 165494)
   \<and> run rt (Draw k) (Seeded 0) = run rt (k (49297 / 233280)) (Seeded 49297)
   \<and> fst (randomizeSound rt eng (Some 0) w) =
       fst (randomizeSound rt' eng (Some 0) (w\<lparr>sound := x0, random := r0, files := f0\<rparr>))
   \<and> params (snd (randomizeSound rt eng (Some 0) w)) =
       params (snd (randomizeSound rt' eng (Some 0) (w\<lparr>sound := x0, random := r0, files := f0\<rparr>)))
   \<and> random (snd (randomizeSound rt eng (Some 0) w)) =
       random (snd (randomizeSound rt' eng (Some 0) (w\<lparr>sound := x0, random := r0, files := f0\<rparr>)))"
proof -
  have same: "randomize_params eng (params w) =
              randomize_params eng (params (w\<lparr>sound := x0, random := r0, files := f0\<rparr>))"
    by simp
  have first: "Math_random rt (Seeded 0) = (49297 / 233280, Seeded 49297)"
    by (simp add: lcg_next_exact)
  have second: "Math_random rt (Seeded 49297) = (165494 / 233280, Seeded 165494)"
    by (simp add: lcg_next_exact)
  have draw: "run rt (Draw k) (Seeded 0) = run rt (k (49297 / 233280)) (Seeded 49297)"
    by (simp add: lcg_next_exact)
  note same = same_seed_same_run [OF same, of rt 0 rt']
  show ?thesis
    by (intro conjI)
      (rule randomizeSound_seeded, rule first, rule second, rule draw,
       rule same [THEN conjunct1], rule same [THEN conjunct2, THEN conjunct1],
       rule same [THEN conjunct2, THEN conjunct2])
qed

end
